theory Spec2Isabelle
  imports Main "HOL-Library.AList"
begin

section \<open>Thrown values\<close>

text \<open>
  The error classes of \<^verbatim>\<open>./errors\<close> that the loader constructs, together with the
  built-in classes it can meet. A thrown value (or the reason of a rejected promise) is
  an object with a \<^verbatim>\<open>message\<close>, or \<^verbatim>\<open>undefined\<close>/\<^verbatim>\<open>null\<close>
  (what \<^verbatim>\<open>Promise.reject()\<close> rejects with), or some other value without a
  \<^verbatim>\<open>message\<close> property.
\<close>

datatype error_class =
    NoDependencyError
  | CompileModuleError
  | LoadBundleError
  | PostprocessorError
  | Error
  | TypeError

datatype js_thrown =
    Thrown error_class string
  | Nullish
  | NoMessage

text \<open>
  Reading \<^verbatim>\<open>ex.message\<close> inside a template string: the message of an error
  object, the text \<^verbatim>\<open>undefined\<close> for a value without that property, and a
  \<^verbatim>\<open>TypeError\<close> of its own when the value is \<^verbatim>\<open>undefined\<close> or
  \<^verbatim>\<open>null\<close>.
\<close>

fun message :: "js_thrown \<Rightarrow> js_thrown + string" where
  "message (Thrown c msg) = Inr msg"
| "message NoMessage = Inr ''undefined''"
| "message Nullish = Inl (Thrown TypeError ''Cannot read properties of undefined'')"

section \<open>Compiled modules and source texts\<close>

text \<open>
  A compiled module is an object with an \<^verbatim>\<open>exports\<close> container. The optional
  \<^verbatim>\<open>start\<close> entry point is a host function: it has a label, under which each of
  its invocations is logged, and a call of it returns (\<open>None\<close>) or throws.
\<close>

datatype start_fn = StartFn (entry_label: string) (entry_throws: "js_thrown option")

record Exports =
  start :: "start_fn option"
  members :: "string list"

record CompiledModule =
  exports :: Exports

text \<open>
  \<^verbatim>\<open>eval(source)\<close> runs arbitrary text. What the loader can observe of that text is
  how it uses the three names in scope: it calls \<^verbatim>\<open>require\<close> and goes on with the
  value it gets back, it throws (a syntax error, or a throw at top level), or it finishes
  having assigned \<^verbatim>\<open>module.exports\<close>. A source text is identified with that
  behaviour.
\<close>

datatype 'o script =
    Require string "'o option \<Rightarrow> 'o script"
  | Throw js_thrown
  | Assign Exports

type_synonym 'o ModuleDependencies = "string \<rightharpoonup> 'o"

definition no_dependency_message :: "string \<Rightarrow> string" where
  "no_dependency_message name' =
     ''Dependency '' @ [CHR 0x22] @ name' @ [CHR 0x22] @ '' does not provided by core application''"

text \<open>
  The closure \<^verbatim>\<open>require\<close> of \<^verbatim>\<open>compileSource\<close>. A dependency object is always
  truthy, so \<^verbatim>\<open>!dependency\<close> holds exactly when the map has no entry. The value
  returned to the compiled code is \<open>Some\<close> object, or \<open>None\<close> for
  \<^verbatim>\<open>undefined\<close>.
\<close>

definition require ::
  "'o ModuleDependencies \<Rightarrow> (string \<Rightarrow> 'o option) option \<Rightarrow> string \<Rightarrow> js_thrown + 'o option"
where
  "require dependencies unknownResolver name' =
     (case dependencies name' of
        Some dependency \<Rightarrow> Inr (Some dependency)
      | None \<Rightarrow>
          (case unknownResolver of
             Some resolver \<Rightarrow>
               (case resolver name' of
                  None \<Rightarrow> Inl (Thrown NoDependencyError (no_dependency_message name'))
                | Some unknownDependency \<Rightarrow> Inr (Some unknownDependency))
           | None \<Rightarrow> Inr None))"

primrec evalSource :: "(string \<Rightarrow> js_thrown + 'o option) \<Rightarrow> 'o script \<Rightarrow> js_thrown + Exports" where
  "evalSource req (Require name' k) =
     (case req name' of Inl ex \<Rightarrow> Inl ex | Inr v \<Rightarrow> evalSource req (k v))"
| "evalSource req (Throw ex) = Inl ex"
| "evalSource req (Assign e) = Inr e"

definition compileSource ::
  "'o script \<Rightarrow> 'o ModuleDependencies \<Rightarrow> (string \<Rightarrow> 'o option) option \<Rightarrow> js_thrown + CompiledModule"
where
  "compileSource source dependencies unknownResolver =
     (case evalSource (require dependencies unknownResolver) source of
        Inl ex \<Rightarrow>
          (case message ex of
             Inl typeError \<Rightarrow> Inl typeError
           | Inr msg \<Rightarrow> Inl (Thrown CompileModuleError (''Cant compile module: '' @ msg)))
      | Inr e \<Rightarrow> Inr \<lparr>exports = e\<rparr>)"

section \<open>Manifests and the registry of manifest types\<close>

text \<open>
  The enumeration \<^verbatim>\<open>ModuleLoadStrategy\<close> is declared in \<^verbatim>\<open>./interface\<close>; the
  loader compares against \<^verbatim>\<open>BLOCK\<close> and \<^verbatim>\<open>IMMEDIATELY\<close> only, every other
  strategy is loaded on demand. \<^verbatim>\<open>TModuleManifest extends IBaseModuleManifest\<close> is
  the extensible record.
\<close>

datatype ModuleLoadStrategy = BLOCK | IMMEDIATELY | LAZY

record IBaseModuleManifest =
  name :: string
  loadStrategy :: ModuleLoadStrategy

type_synonym 'x manifest = "'x IBaseModuleManifest_scheme"

text \<open>
  A host function that returns a task (a hook, the runner) either throws while it is
  called, or returns a task that later resolves (\<open>None\<close>) or rejects with a reason.
  Type matchers and the URL formatter are taken to return normally. Manifest names,
  dependency names and type keys are taken to be none of the keys that every object
  inherits (\<^verbatim>\<open>toString\<close>, \<^verbatim>\<open>constructor\<close>, ...), for which a lookup in an empty
  object answers with the inherited member; so an object used as a table is a partial map.
\<close>

datatype call_result = Throws js_thrown | Returns "js_thrown option"

text \<open>
  What the loader does to the outside: console, network, \<^verbatim>\<open>eval\<close>, host callbacks.
  A retrieval (with its URL) and a compilation are logged with the name under which the
  load's task is stored, a start entry point with its label.
\<close>

datatype effect =
    ConsoleWarn string
  | ConsoleError string
  | Retrieved string string
  | Compiled string
  | StartCalled string
  | RunnerCalled

record 'x ManifestProcessors =
  typeMatchers :: "(string \<times> ('x manifest \<Rightarrow> bool)) list"
  modulePreprocessors :: "string \<rightharpoonup> ('x manifest \<Rightarrow> call_result)"
  modulePostprocessors :: "string \<rightharpoonup> ('x manifest \<Rightarrow> CompiledModule \<Rightarrow> call_result)"

definition getModuleTypeByManifest ::
  "'x ManifestProcessors \<Rightarrow> 'x manifest \<Rightarrow> string option \<times> effect list"
where
  "getModuleTypeByManifest p manifest =
     (case find (\<lambda>(typeKey, typeMatcher). typeMatcher manifest) (typeMatchers p) of
        Some (typeKey, typeMatcher) \<Rightarrow> (Some typeKey, [])
      | None \<Rightarrow>
          (None, [ConsoleWarn (''Cant resolve type of service '' @ [CHR 0x22] @ name manifest @ [CHR 0x22])]))"

definition registerManifestType ::
  "string \<Rightarrow> ('x manifest \<Rightarrow> bool) \<Rightarrow> ('x manifest \<Rightarrow> call_result) option \<Rightarrow>
   ('x manifest \<Rightarrow> CompiledModule \<Rightarrow> call_result) option \<Rightarrow>
   'x ManifestProcessors \<Rightarrow> 'x ManifestProcessors"
where
  "registerManifestType type typeMatcher modulePreprocessor modulePostprocessor p =
     p\<lparr>typeMatchers := AList.update type typeMatcher (typeMatchers p),
       modulePreprocessors :=
         (case modulePreprocessor of
            Some pre \<Rightarrow> (modulePreprocessors p)(type \<mapsto> pre)
          | None \<Rightarrow> modulePreprocessors p),
       modulePostprocessors :=
         (case modulePostprocessor of
            Some post \<Rightarrow> (modulePostprocessors p)(type \<mapsto> post)
          | None \<Rightarrow> modulePostprocessors p)\<rparr>"

text \<open>
  \<^verbatim>\<open>Object.keys\<close> lists the type keys in the order of their registration (keys that
  read as array indices, which it would list first, are left aside).
  \<^verbatim>\<open>!moduleType\<close> also holds for the empty type key.
\<close>

definition runPreprocessor :: "'x ManifestProcessors \<Rightarrow> 'x manifest \<Rightarrow> call_result \<times> effect list" where
  "runPreprocessor p manifest =
     (case getModuleTypeByManifest p manifest of
        (None, w) \<Rightarrow> (Returns None, w)
      | (Some moduleType, w) \<Rightarrow>
          if moduleType = [] then (Returns None, w)
          else
            (case modulePreprocessors p moduleType of
               Some pre \<Rightarrow> (pre manifest, w)
             | None \<Rightarrow> (Returns None, w)))"

definition runPostprocessor ::
  "'x ManifestProcessors \<Rightarrow> 'x manifest \<Rightarrow> CompiledModule \<Rightarrow> call_result \<times> effect list"
where
  "runPostprocessor p manifest module =
     (case getModuleTypeByManifest p manifest of
        (None, w) \<Rightarrow> (Returns None, w)
      | (Some moduleType, w) \<Rightarrow>
          if moduleType = [] then (Returns None, w)
          else
            (case modulePostprocessors p moduleType of
               Some post \<Rightarrow> (post manifest module, w)
             | None \<Rightarrow> (Returns None, w)))"

text \<open>
  Modelled from the spec: the registry method \<^verbatim>\<open>runPreprocessors\<close>, which
  \<^verbatim>\<open>loadBundleByManifest\<close> calls and the class \<^verbatim>\<open>ManifestProcessors\<close> of the
  sources does not declare (it declares \<^verbatim>\<open>runPreprocessor\<close>; with the sources as
  they are, the call of the undeclared method throws a TypeError and no load begins). By
  sections 4.1 and 4.3 of the spec the load first runs the registry's preprocessor for the
  manifest, which resolves immediately if the manifest has no type or the type has no
  preprocessor, and otherwise awaits the registered preprocessor, whose failure goes on to
  the caller. That is the dispatch of the declared method, where a hook that throws while
  it is called makes the method throw.
\<close>

definition runPreprocessors :: "'x ManifestProcessors \<Rightarrow> 'x manifest \<Rightarrow> call_result \<times> effect list" where
  "runPreprocessors p manifest = runPreprocessor p manifest"

text \<open>
  Modelled from the spec: the registry method \<^verbatim>\<open>runPostprocessors\<close>, which the
  load calls after the compile and the class \<^verbatim>\<open>ManifestProcessors\<close> of the sources
  does not declare (it declares \<^verbatim>\<open>runPostprocessor\<close>). By section 4.1 of the spec
  the registry's postprocessor follows the same dispatch rule as its preprocessor, invoked
  with the compiled module.
\<close>

definition runPostprocessors ::
  "'x ManifestProcessors \<Rightarrow> 'x manifest \<Rightarrow> CompiledModule \<Rightarrow> call_result \<times> effect list"
where
  "runPostprocessors p manifest module = runPostprocessor p manifest module"

section \<open>The loader\<close>

text \<open>
  The task stored in \<^verbatim>\<open>loadersCache\<close> is a chain of continuations. Its state is
  the continuation it waits in: for the preprocessor's task (which will resolve or reject
  with the recorded reason), for the network, for the postprocessor's task; or it has
  settled. The manifest and the URL are what the closures of the chain captured.
\<close>

datatype settled = Resolved "CompiledModule option" | Rejected js_thrown

datatype 'x load_stage =
    Preprocessing "'x manifest" string "js_thrown option"
  | Fetching "'x manifest" string
  | Postprocessing "'x manifest" CompiledModule "js_thrown option"
  | Settled settled

text \<open>
  What \<^verbatim>\<open>fetch(url)\<close> answers: it rejects, or it delivers a status and a text.
\<close>

datatype 'o fetch_result = NetworkError js_thrown | Response nat "'o script"

record IModuleLoaderEntrypoint =
  manifestUrl :: string

text \<open>
  The fields of the class. Fields declared without an initialiser are \<open>None\<close> until
  they are assigned. \<open>bundlesListStream\<close> holds the values the \<^verbatim>\<open>BehaviorSubject\<close>
  has had, the initial \<^verbatim>\<open>[]\<close> first; \<open>effects\<close> is the log of everything done to the
  outside, oldest first.
\<close>

record ('x, 'o) ModuleLoaderTool =
  dependencies :: "'o ModuleDependencies"
  unknownDependencyResolver :: "(string \<Rightarrow> 'o option) option"
  urlFormatter :: "('x manifest \<Rightarrow> string) option"
  entrypoint :: "IModuleLoaderEntrypoint option"
  manifestProcessors :: "'x ManifestProcessors"
  bundlesList :: "'x manifest list option"
  bundlesListStream :: "'x manifest list list"
  bundlesCache :: "string \<rightharpoonup> CompiledModule"
  loadersCache :: "string \<rightharpoonup> 'x load_stage"
  effects :: "effect list"

definition new_ModuleLoaderTool :: "('x, 'o) ModuleLoaderTool" where
  "new_ModuleLoaderTool =
     \<lparr>dependencies = Map.empty,
      unknownDependencyResolver = None,
      urlFormatter = None,
      entrypoint = None,
      manifestProcessors =
        \<lparr>typeMatchers = [], modulePreprocessors = Map.empty, modulePostprocessors = Map.empty\<rparr>,
      bundlesList = None,
      bundlesListStream = [[]],
      bundlesCache = Map.empty,
      loadersCache = Map.empty,
      effects = []\<rparr>"

definition not_a_function :: js_thrown where
  "not_a_function = Thrown TypeError ''is not a function''"

definition startupCheck :: "('x, 'o) ModuleLoaderTool \<Rightarrow> js_thrown + unit" where
  "startupCheck s =
     (if urlFormatter s = None then Inl (Thrown Error ''urlFormatter is not defined'')
      else if entrypoint s = None then Inl (Thrown Error ''entrypoint is not defined'')
      else Inr ())"

definition setBundlesList :: "'x manifest list \<Rightarrow> ('x, 'o) ModuleLoaderTool \<Rightarrow> ('x, 'o) ModuleLoaderTool" where
  "setBundlesList list s =
     s\<lparr>bundlesList := Some list, bundlesListStream := bundlesListStream s @ [list]\<rparr>"

definition isBundleLoaded :: "('x, 'o) ModuleLoaderTool \<Rightarrow> string \<Rightarrow> bool" where
  "isBundleLoaded s bundleName = (bundlesCache s bundleName \<noteq> None)"

text \<open>
  The promise a caller of \<^verbatim>\<open>loadBundleByManifest\<close> receives: the one stored in
  \<^verbatim>\<open>loadersCache\<close> under a name (it is stored once and never replaced), or a fresh
  \<^verbatim>\<open>Promise.resolve(module)\<close>.
\<close>

datatype task = LoaderTask string | ResolvedTask CompiledModule

fun taskOutcome :: "('x, 'o) ModuleLoaderTool \<Rightarrow> task \<Rightarrow> settled option" where
  "taskOutcome s (ResolvedTask c) = Some (Resolved (Some c))"
| "taskOutcome s (LoaderTask n) =
     (case loadersCache s n of Some (Settled out) \<Rightarrow> Some out | _ \<Rightarrow> None)"

definition loadBundleByManifest ::
  "'x manifest \<Rightarrow> ('x, 'o) ModuleLoaderTool \<Rightarrow> (js_thrown + task) \<times> ('x, 'o) ModuleLoaderTool"
where
  "loadBundleByManifest manifest s =
     (case bundlesCache s (name manifest) of
        Some c \<Rightarrow> (Inr (ResolvedTask c), s)
      | None \<Rightarrow>
          (case loadersCache s (name manifest) of
             Some t \<Rightarrow> (Inr (LoaderTask (name manifest)), s)
           | None \<Rightarrow>
               (case urlFormatter s of
                  None \<Rightarrow> (Inl not_a_function, s)
                | Some formatter \<Rightarrow>
                    (let serviceFileUrl = formatter manifest in
                     case runPreprocessors (manifestProcessors s) manifest of
                       (Throws ex, w) \<Rightarrow> (Inl ex, s\<lparr>effects := effects s @ w\<rparr>)
                     | (Returns out, w) \<Rightarrow>
                         (Inr (LoaderTask (name manifest)),
                          s\<lparr>loadersCache :=
                              (loadersCache s)(name manifest \<mapsto> Preprocessing manifest serviceFileUrl out),
                            effects := effects s @ w\<rparr>)))))"

text \<open>The handler of the final \<^verbatim>\<open>.catch\<close> of the chain stored under \<open>n\<close>.\<close>

definition catchLoadError ::
  "string \<Rightarrow> 'x manifest \<Rightarrow> js_thrown \<Rightarrow> ('x, 'o) ModuleLoaderTool \<Rightarrow> ('x, 'o) ModuleLoaderTool"
where
  "catchLoadError n manifest error s =
     (case message error of
        Inl typeError \<Rightarrow> s\<lparr>loadersCache := (loadersCache s)(n \<mapsto> Settled (Rejected typeError))\<rparr>
      | Inr msg \<Rightarrow>
          s\<lparr>loadersCache := (loadersCache s)(n \<mapsto> Settled (Resolved None)),
            effects := effects s @ [ConsoleError (''Module: '' @ name manifest @ ''. Error: '' @ msg)]\<rparr>)"

fun string_of_nat :: "nat \<Rightarrow> string" where
  "string_of_nat n =
     (if n < 10 then [char_of (48 + n)]
      else string_of_nat (n div 10) @ [char_of (48 + n mod 10)])"

definition InvalidHttpStatusStart :: nat where
  "InvalidHttpStatusStart = 400"

text \<open>\<^verbatim>\<open>fetchBundleSource\<close>, applied to what the network answered.\<close>

definition fetchBundleSource :: "'o fetch_result \<Rightarrow> js_thrown + 'o script" where
  "fetchBundleSource reply =
     (case reply of
        NetworkError ex \<Rightarrow> Inl ex
      | Response status text \<Rightarrow>
          if status \<ge> InvalidHttpStatusStart
          then Inl (Thrown LoadBundleError (''Cant load bundle, http error '' @ string_of_nat status))
          else Inr text)"

text \<open>
  One turn of the chain stored under \<open>n\<close>: the continuation it waits in runs, with
  \<open>reply\<close> the answer of the network if that is what it waits for. A settled task and a
  name without a task are left alone.
\<close>

definition advance ::
  "'o fetch_result \<Rightarrow> string \<Rightarrow> ('x, 'o) ModuleLoaderTool \<Rightarrow> ('x, 'o) ModuleLoaderTool"
where
  "advance reply n s =
     (case loadersCache s n of
        None \<Rightarrow> s
      | Some (Settled out) \<Rightarrow> s
      | Some (Preprocessing manifest serviceFileUrl (Some reason)) \<Rightarrow>
          catchLoadError n manifest reason s
      | Some (Preprocessing manifest serviceFileUrl None) \<Rightarrow>
          s\<lparr>loadersCache := (loadersCache s)(n \<mapsto> Fetching manifest serviceFileUrl),
            effects := effects s @ [Retrieved n serviceFileUrl]\<rparr>
      | Some (Fetching manifest serviceFileUrl) \<Rightarrow>
          (case fetchBundleSource reply of
             Inl ex \<Rightarrow> catchLoadError n manifest ex s
           | Inr source \<Rightarrow>
               (let s1 = s\<lparr>effects := effects s @ [Compiled n]\<rparr> in
                case compileSource source (dependencies s1) (unknownDependencyResolver s1) of
                  Inl ex \<Rightarrow> catchLoadError n manifest ex s1
                | Inr compiledModule \<Rightarrow>
                    (let s2 = s1\<lparr>bundlesCache := (bundlesCache s1)(name manifest \<mapsto> compiledModule)\<rparr> in
                     case runPostprocessors (manifestProcessors s2) manifest compiledModule of
                       (Throws ex, w) \<Rightarrow> catchLoadError n manifest ex (s2\<lparr>effects := effects s2 @ w\<rparr>)
                     | (Returns out, w) \<Rightarrow>
                         s2\<lparr>loadersCache :=
                              (loadersCache s2)(n \<mapsto> Postprocessing manifest compiledModule out),
                            effects := effects s2 @ w\<rparr>)))
      | Some (Postprocessing manifest compiledModule None) \<Rightarrow>
          s\<lparr>loadersCache := (loadersCache s)(n \<mapsto> Settled (Resolved (Some compiledModule)))\<rparr>
      | Some (Postprocessing manifest compiledModule (Some reason)) \<Rightarrow>
          catchLoadError n manifest (Thrown PostprocessorError ''Postprocessor crashed'') s)"

definition loadBundleByName ::
  "string \<Rightarrow> ('x, 'o) ModuleLoaderTool \<Rightarrow> (js_thrown + task) \<times> ('x, 'o) ModuleLoaderTool"
where
  "loadBundleByName name' s =
     (case bundlesList s of
        None \<Rightarrow> (Inl (Thrown TypeError ''Cannot read properties of undefined''), s)
      | Some list \<Rightarrow>
          (case find (\<lambda>m. name m = name') list of
             None \<Rightarrow>
               (Inl (Thrown Error (''Module with name '' @ [CHR 0x22] @ name' @ [CHR 0x22] @ '' is not declared'')), s)
           | Some manifest \<Rightarrow> loadBundleByManifest manifest s))"

section \<open>Bulk activation\<close>

text \<open>The \<^verbatim>\<open>map\<close> over the selected manifests; a call that throws ends it.\<close>

fun loadEach ::
  "'x manifest list \<Rightarrow> ('x, 'o) ModuleLoaderTool \<Rightarrow> (js_thrown + task list) \<times> ('x, 'o) ModuleLoaderTool"
where
  "loadEach [] s = (Inr [], s)"
| "loadEach (manifest # rest) s =
     (case loadBundleByManifest manifest s of
        (Inl ex, s1) \<Rightarrow> (Inl ex, s1)
      | (Inr t, s1) \<Rightarrow>
          (case loadEach rest s1 of
             (Inl ex, s2) \<Rightarrow> (Inl ex, s2)
           | (Inr ts, s2) \<Rightarrow> (Inr (t # ts), s2)))"

text \<open>
  \<^verbatim>\<open>Promise.all\<close>: rejected once a member is rejected, fulfilled with all the values
  once every member is fulfilled, pending (\<open>None\<close>) otherwise.
\<close>

fun promiseAll ::
  "('x, 'o) ModuleLoaderTool \<Rightarrow> task list \<Rightarrow> (js_thrown + CompiledModule option list) option"
where
  "promiseAll s [] = Some (Inr [])"
| "promiseAll s (t # ts) =
     (case taskOutcome s t of
        Some (Rejected reason) \<Rightarrow> Some (Inl reason)
      | Some (Resolved v) \<Rightarrow>
          (case promiseAll s ts of
             Some (Inr vs) \<Rightarrow> Some (Inr (v # vs))
           | other \<Rightarrow> other)
      | None \<Rightarrow>
          (case promiseAll s ts of
             Some (Inl reason) \<Rightarrow> Some (Inl reason)
           | other \<Rightarrow> None))"

text \<open>
  The \<^verbatim>\<open>forEach\<close> over the compiled bundles: the start entry points it calls, in
  order, and what the first of them that throws has thrown; that one ends the loop.
\<close>

fun startCalls :: "CompiledModule option list \<Rightarrow> effect list \<times> js_thrown option" where
  "startCalls [] = ([], None)"
| "startCalls (compiledBundle # rest) =
     (case compiledBundle of
        None \<Rightarrow> startCalls rest
      | Some c \<Rightarrow>
          (case start (exports c) of
             None \<Rightarrow> startCalls rest
           | Some entry \<Rightarrow>
               (case entry_throws entry of
                  Some ex \<Rightarrow> ([StartCalled (entry_label entry)], Some ex)
                | None \<Rightarrow>
                    (case startCalls rest of
                       (es, r) \<Rightarrow> (StartCalled (entry_label entry) # es, r)))))"

datatype void_task = Pending | Fulfilled | Failed js_thrown

definition bulkLoadBundles ::
  "('x manifest \<Rightarrow> bool) \<Rightarrow> ('x, 'o) ModuleLoaderTool \<Rightarrow> (js_thrown + task list) \<times> ('x, 'o) ModuleLoaderTool"
where
  "bulkLoadBundles filterFn s =
     (case bundlesList s of
        None \<Rightarrow> (Inl (Thrown TypeError ''Cannot read properties of undefined''), s)
      | Some list \<Rightarrow> loadEach (filter filterFn list) s)"

text \<open>
  The task \<^verbatim>\<open>bulkLoadBundles\<close> returns, looked at in state \<open>s\<close>: while
  \<^verbatim>\<open>Promise.all\<close> is pending nothing happens; when it is fulfilled the callback runs,
  and the task is fulfilled unless a start entry point threw.
\<close>

definition bulkLoaded ::
  "task list \<Rightarrow> ('x, 'o) ModuleLoaderTool \<Rightarrow> void_task \<times> ('x, 'o) ModuleLoaderTool"
where
  "bulkLoaded tasks s =
     (case promiseAll s tasks of
        None \<Rightarrow> (Pending, s)
      | Some (Inl reason) \<Rightarrow> (Failed reason, s)
      | Some (Inr compiledBundles) \<Rightarrow>
          (case startCalls compiledBundles of
             (es, None) \<Rightarrow> (Fulfilled, s\<lparr>effects := effects s @ es\<rparr>)
           | (es, Some ex) \<Rightarrow> (Failed ex, s\<lparr>effects := effects s @ es\<rparr>)))"

text \<open>
  \<^verbatim>\<open>start(runner)\<close> (here \<open>mlt_start\<close>, the name \<open>start\<close> being the entry point
  of a module) returns a chain of two continuations. The task is queued, then waits for
  what the runner returned, then for the bulk load, then it has settled. \<open>startStep\<close>
  runs the continuation that is due: for \<open>AwaitRunner\<close> the one that runs when the
  runner's task has settled.
\<close>

datatype start_task =
    StartQueued call_result
  | AwaitRunner "js_thrown option"
  | AwaitBulk "task list"
  | StartDone "js_thrown option"

definition mlt_start ::
  "call_result \<Rightarrow> ('x, 'o) ModuleLoaderTool \<Rightarrow> start_task \<times> ('x, 'o) ModuleLoaderTool"
where
  "mlt_start runner s = (StartQueued runner, s)"

fun startStep ::
  "start_task \<Rightarrow> ('x, 'o) ModuleLoaderTool \<Rightarrow> start_task \<times> ('x, 'o) ModuleLoaderTool"
where
  "startStep (StartQueued (Throws ex)) s =
     (StartDone (Some ex), s\<lparr>effects := effects s @ [RunnerCalled]\<rparr>)"
| "startStep (StartQueued (Returns out)) s =
     (AwaitRunner out, s\<lparr>effects := effects s @ [RunnerCalled]\<rparr>)"
| "startStep (AwaitRunner (Some reason)) s = (StartDone (Some reason), s)"
| "startStep (AwaitRunner None) s =
     (case bulkLoadBundles (\<lambda>manifest. loadStrategy manifest = IMMEDIATELY) s of
        (Inl ex, s1) \<Rightarrow> (StartDone (Some ex), s1)
      | (Inr tasks, s1) \<Rightarrow> (AwaitBulk tasks, s1))"
| "startStep (AwaitBulk tasks) s =
     (case bulkLoaded tasks s of
        (Pending, s1) \<Rightarrow> (AwaitBulk tasks, s1)
      | (Fulfilled, s1) \<Rightarrow> (StartDone None, s1)
      | (Failed reason, s1) \<Rightarrow> (StartDone (Some reason), s1))"
| "startStep (StartDone out) s = (StartDone out, s)"

text \<open>
  \<^verbatim>\<open>init(filterFn)\<close>. The retrieval of the manifest list, \<^verbatim>\<open>JSON.parse\<close> and the
  flattener are outside the loader: \<open>loaded\<close> is what they deliver, a failure or the
  list \<^verbatim>\<open>loadedBundles\<close>.
\<close>

datatype 'x init_task =
    AwaitBundles "('x manifest \<Rightarrow> bool) option"
  | BundlesInstalled
  | InitBulk "task list"
  | InitDone "js_thrown option"

definition init ::
  "('x manifest \<Rightarrow> bool) option \<Rightarrow> ('x, 'o) ModuleLoaderTool \<Rightarrow> js_thrown + 'x init_task"
where
  "init filterFn s =
     (case startupCheck s of
        Inl ex \<Rightarrow> Inl ex
      | Inr u \<Rightarrow> Inr (AwaitBundles filterFn))"

fun initStep ::
  "js_thrown + 'x manifest list \<Rightarrow> 'x init_task \<Rightarrow> ('x, 'o) ModuleLoaderTool \<Rightarrow>
   'x init_task \<times> ('x, 'o) ModuleLoaderTool"
where
  "initStep (Inl ex) (AwaitBundles filterFn) s = (InitDone (Some ex), s)"
| "initStep (Inr loadedBundles) (AwaitBundles None) s =
     (BundlesInstalled, setBundlesList loadedBundles s)"
| "initStep (Inr loadedBundles) (AwaitBundles (Some filterFn)) s =
     (BundlesInstalled, setBundlesList (filter filterFn loadedBundles) s)"
| "initStep loaded BundlesInstalled s =
     (case bulkLoadBundles (\<lambda>manifest. loadStrategy manifest = BLOCK) s of
        (Inl ex, s1) \<Rightarrow> (InitDone (Some ex), s1)
      | (Inr tasks, s1) \<Rightarrow> (InitBulk tasks, s1))"
| "initStep loaded (InitBulk tasks) s =
     (case bulkLoaded tasks s of
        (Pending, s1) \<Rightarrow> (InitBulk tasks, s1)
      | (Fulfilled, s1) \<Rightarrow> (InitDone None, s1)
      | (Failed reason, s1) \<Rightarrow> (InitDone (Some reason), s1))"
| "initStep loaded (InitDone out) s = (InitDone out, s)"

section \<open>Manual definition and configuration\<close>

text \<open>What the call of the start entry point of an exports container throws, if anything.\<close>

definition startThrown :: "Exports \<Rightarrow> js_thrown option" where
  "startThrown e = (case start e of Some entry \<Rightarrow> entry_throws entry | None \<Rightarrow> None)"

definition manifest_defined_message :: "string \<Rightarrow> string" where
  "manifest_defined_message name' =
     ''Manifest with name '' @ [CHR 0x22] @ name' @ [CHR 0x22] @ '' already defined, break;''"

definition manuallyDefineBundle ::
  "'x manifest \<Rightarrow> CompiledModule \<Rightarrow> ('x, 'o) ModuleLoaderTool \<Rightarrow>
   (js_thrown + unit) \<times> ('x, 'o) ModuleLoaderTool"
where
  "manuallyDefineBundle manifest bundle s =
     (case bundlesList s of
        None \<Rightarrow> (Inl (Thrown TypeError ''Cannot read properties of undefined''), s)
      | Some list \<Rightarrow>
          (let s1 = setBundlesList (list @ [manifest]) s;
               s2 = (case start (exports bundle) of
                       Some entry \<Rightarrow> s1\<lparr>effects := effects s1 @ [StartCalled (entry_label entry)]\<rparr>
                     | None \<Rightarrow> s1)
           in case startThrown (exports bundle) of
                Some ex \<Rightarrow> (Inl ex, s2)
              | None \<Rightarrow>
                  (case bundlesCache s2 (name manifest) of
                     Some c \<Rightarrow> (Inl (Thrown Error (manifest_defined_message (name manifest))), s2)
                   | None \<Rightarrow>
                       (Inr (), s2\<lparr>bundlesCache := (bundlesCache s2)(name manifest \<mapsto> bundle)\<rparr>))))"

text \<open>
  Modelled from the spec: how a type and its hooks come into the registry of a loader.
  \<^verbatim>\<open>definePreprocessor\<close> and \<^verbatim>\<open>definePostprocessor\<close> call the registry methods
  \<^verbatim>\<open>registerPreprocessor\<close> and \<^verbatim>\<open>registerPostprocessor\<close>, which the sources do
  not declare. By section 4.1 of the spec a type is registered with
  \<^verbatim>\<open>registerType(typeKey, matcher, preprocessor?, postprocessor?)\<close>, which stores the
  matcher under the key, and the hooks under the same key if they are provided; that is
  \<^verbatim>\<open>registerManifestType\<close> of the sources.
\<close>

definition registerType ::
  "string \<Rightarrow> ('x manifest \<Rightarrow> bool) \<Rightarrow> ('x manifest \<Rightarrow> call_result) option \<Rightarrow>
   ('x manifest \<Rightarrow> CompiledModule \<Rightarrow> call_result) option \<Rightarrow>
   ('x, 'o) ModuleLoaderTool \<Rightarrow> ('x, 'o) ModuleLoaderTool"
where
  "registerType typeKey matcher preprocessor postprocessor s =
     s\<lparr>manifestProcessors :=
         registerManifestType typeKey matcher preprocessor postprocessor (manifestProcessors s)\<rparr>"

definition defineDependencies ::
  "'o ModuleDependencies \<Rightarrow> ('x, 'o) ModuleLoaderTool \<Rightarrow> ('x, 'o) ModuleLoaderTool" where
  "defineDependencies d s = s\<lparr>dependencies := d\<rparr>"

definition defineUnknownDependencyResolver ::
  "(string \<Rightarrow> 'o option) \<Rightarrow> ('x, 'o) ModuleLoaderTool \<Rightarrow> ('x, 'o) ModuleLoaderTool" where
  "defineUnknownDependencyResolver resolver s = s\<lparr>unknownDependencyResolver := Some resolver\<rparr>"

definition defineUrlFormatter ::
  "('x manifest \<Rightarrow> string) \<Rightarrow> ('x, 'o) ModuleLoaderTool \<Rightarrow> ('x, 'o) ModuleLoaderTool" where
  "defineUrlFormatter formatter s = s\<lparr>urlFormatter := Some formatter\<rparr>"

definition defineEntrypoint ::
  "IModuleLoaderEntrypoint \<Rightarrow> ('x, 'o) ModuleLoaderTool \<Rightarrow> ('x, 'o) ModuleLoaderTool" where
  "defineEntrypoint e s = s\<lparr>entrypoint := Some e\<rparr>"

section \<open>Executions\<close>

text \<open>
  Everything that changes a loader: the calls of its public methods, the continuations of
  \<^verbatim>\<open>init\<close> and \<^verbatim>\<open>start\<close>, and the turns of the load tasks. An execution is a list
  of these, in the order in which the single thread runs them.
\<close>

datatype ('x, 'o) event =
    DefineDependencies "'o ModuleDependencies"
  | DefineUnknownDependencyResolver "string \<Rightarrow> 'o option"
  | DefineUrlFormatter "'x manifest \<Rightarrow> string"
  | DefineEntrypoint IModuleLoaderEntrypoint
  | RegisterType string "'x manifest \<Rightarrow> bool" "('x manifest \<Rightarrow> call_result) option"
      "('x manifest \<Rightarrow> CompiledModule \<Rightarrow> call_result) option"
  | SetBundlesList "'x manifest list"
  | BulkLoadBundles "'x manifest \<Rightarrow> bool"
  | BulkLoaded "task list"
  | CallRunner
  | LoadBundleByName string
  | ManuallyDefineBundle "'x manifest" CompiledModule
  | Advance "'o fetch_result" string

fun apply_event :: "('x, 'o) event \<Rightarrow> ('x, 'o) ModuleLoaderTool \<Rightarrow> ('x, 'o) ModuleLoaderTool" where
  "apply_event (DefineDependencies d) s = defineDependencies d s"
| "apply_event (DefineUnknownDependencyResolver r) s = defineUnknownDependencyResolver r s"
| "apply_event (DefineUrlFormatter f) s = defineUrlFormatter f s"
| "apply_event (DefineEntrypoint e) s = defineEntrypoint e s"
| "apply_event (RegisterType t m pre post) s = registerType t m pre post s"
| "apply_event (SetBundlesList list) s = setBundlesList list s"
| "apply_event (BulkLoadBundles filterFn) s = snd (bulkLoadBundles filterFn s)"
| "apply_event (BulkLoaded tasks) s = snd (bulkLoaded tasks s)"
| "apply_event CallRunner s = s\<lparr>effects := effects s @ [RunnerCalled]\<rparr>"
| "apply_event (LoadBundleByName n) s = snd (loadBundleByName n s)"
| "apply_event (ManuallyDefineBundle manifest bundle) s = snd (manuallyDefineBundle manifest bundle s)"
| "apply_event (Advance reply n) s = advance reply n s"

definition run :: "('x, 'o) event list \<Rightarrow> ('x, 'o) ModuleLoaderTool \<Rightarrow> ('x, 'o) ModuleLoaderTool" where
  "run evs s = fold apply_event evs s"

text \<open>How often the bundle of a name was retrieved, and compiled, in a log of effects.\<close>

definition retrievals :: "string \<Rightarrow> effect list \<Rightarrow> nat" where
  "retrievals n es = length (filter (\<lambda>e. case e of Retrieved n' url \<Rightarrow> n' = n | _ \<Rightarrow> False) es)"

definition compilations :: "string \<Rightarrow> effect list \<Rightarrow> nat" where
  "compilations n es = length (filter (\<lambda>e. e = Compiled n) es)"

definition startInvocations :: "string \<Rightarrow> effect list \<Rightarrow> nat" where
  "startInvocations entry es = length (filter (\<lambda>e. e = StartCalled entry) es)"

section \<open>Invariants of executions\<close>

text \<open>
  A task stored under a name belongs to a manifest of that name, and a task that has come
  to its postprocessor has its module in the compiled cache. Loads begin only once the
  manifest list exists.
\<close>

fun stage_ok :: "CompiledModule option \<Rightarrow> string \<Rightarrow> 'x load_stage \<Rightarrow> bool" where
  "stage_ok cached n (Preprocessing manifest url out) = (name manifest = n)"
| "stage_ok cached n (Fetching manifest url) = (name manifest = n)"
| "stage_ok cached n (Postprocessing manifest c out) = (name manifest = n \<and> cached = Some c)"
| "stage_ok cached n (Settled out) = True"

definition consistent :: "('x, 'o) ModuleLoaderTool \<Rightarrow> bool" where
  "consistent s =
     ((\<forall>n st. loadersCache s n = Some st \<longrightarrow> stage_ok (bundlesCache s n) n st) \<and>
      (\<forall>n. bundlesList s = None \<longrightarrow> bundlesCache s n = None \<and> loadersCache s n = None))"




text \<open>
  What is left untouched for a name between two states: its task, its retrievals and
  compilations, and its cached module if it has one.
\<close>

definition kept :: "string \<Rightarrow> ('x, 'o) ModuleLoaderTool \<Rightarrow> ('x, 'o) ModuleLoaderTool \<Rightarrow> bool" where
  "kept n s s' =
     (loadersCache s' n = loadersCache s n \<and>
      retrievals n (effects s') = retrievals n (effects s) \<and>
      compilations n (effects s') = compilations n (effects s) \<and>
      (bundlesCache s n = None \<or> bundlesCache s' n = bundlesCache s n))"


text \<open>What the registry logs: nothing, or one warning.\<close>

definition warnings :: "effect list \<Rightarrow> bool" where
  "warnings w = (w = [] \<or> (\<exists>msg. w = [ConsoleWarn msg]))"

text \<open>The steps of the task \<^verbatim>\<open>start\<close> returned, run one after the other.\<close>

fun startSteps ::
  "nat \<Rightarrow> start_task \<Rightarrow> ('x, 'o) ModuleLoaderTool \<Rightarrow> start_task \<times> ('x, 'o) ModuleLoaderTool"
where
  "startSteps 0 t s = (t, s)"
| "startSteps (Suc k) t s = (case startStep t s of (t1, s1) \<Rightarrow> startSteps k t1 s1)"

section \<open>Example configurations\<close>

text \<open>
  A loader with one manifest \<^verbatim>\<open>a\<close>, whose URL is its name and whose bundle exports a
  start entry point that returns; a bundle whose start entry point throws; the hooks
  \<^verbatim>\<open>() => Promise.reject()\<close>, \<^verbatim>\<open>() => Promise.reject(new Error('hook'))\<close>,
  \<^verbatim>\<open>() => { throw undefined }\<close> and \<^verbatim>\<open>() => { throw new Error('pre') }\<close>,
  registered for every manifest; and the states of some executions.
\<close>

definition example_manifest :: IBaseModuleManifest where
  "example_manifest = \<lparr>name = ''a'', loadStrategy = IMMEDIATELY\<rparr>"

definition example_exports :: Exports where
  "example_exports = \<lparr>start = Some (StartFn ''go'' None), members = []\<rparr>"

definition example_module :: CompiledModule where
  "example_module = \<lparr>exports = example_exports\<rparr>"

definition other_module :: CompiledModule where
  "other_module = \<lparr>exports = \<lparr>start = None, members = [''x'']\<rparr>\<rparr>"

definition throwing_module :: CompiledModule where
  "throwing_module =
     \<lparr>exports = \<lparr>start = Some (StartFn ''boom'' (Some (Thrown Error ''start failed''))), members = []\<rparr>\<rparr>"

definition example_source :: "nat script" where
  "example_source = Assign example_exports"

definition requiring :: "string \<Rightarrow> Exports \<Rightarrow> nat script" where
  "requiring name' e = Require name' (\<lambda>v. Assign e)"

definition example_reply :: "nat fetch_result" where
  "example_reply = Response 200 example_source"

definition any_manifest :: "'x manifest \<Rightarrow> bool" where
  "any_manifest manifest = True"

definition rejecting_preprocessor :: "'x manifest \<Rightarrow> call_result" where
  "rejecting_preprocessor manifest = Returns (Some Nullish)"

definition failing_postprocessor :: "'x manifest \<Rightarrow> CompiledModule \<Rightarrow> call_result" where
  "failing_postprocessor manifest module = Returns (Some (Thrown Error ''hook''))"

definition throwing_postprocessor :: "'x manifest \<Rightarrow> CompiledModule \<Rightarrow> call_result" where
  "throwing_postprocessor manifest module = Throws Nullish"

definition throwing_preprocessor :: "'x manifest \<Rightarrow> call_result" where
  "throwing_preprocessor manifest = Throws (Thrown Error ''pre'')"

definition configuration :: "(unit, nat) event list" where
  "configuration =
     [DefineUrlFormatter name, DefineEntrypoint \<lparr>manifestUrl = ''list''\<rparr>,
      SetBundlesList [example_manifest]]"

definition with_preprocessor :: "(unit, nat) event list" where
  "with_preprocessor =
     configuration @ [RegisterType ''t'' any_manifest (Some rejecting_preprocessor) None]"

definition with_postprocessor :: "(unit, nat) event list" where
  "with_postprocessor =
     configuration @ [RegisterType ''t'' any_manifest None (Some failing_postprocessor)]"

definition with_throwing_postprocessor :: "(unit, nat) event list" where
  "with_throwing_postprocessor =
     configuration @ [RegisterType ''t'' any_manifest None (Some throwing_postprocessor)]"

definition with_throwing_preprocessor :: "(unit, nat) event list" where
  "with_throwing_preprocessor =
     configuration @ [RegisterType ''t'' any_manifest (Some throwing_preprocessor) None]"

definition load_and_compile :: "(unit, nat) event list" where
  "load_and_compile =
     [LoadBundleByName ''a'', Advance example_reply ''a'', Advance example_reply ''a'']"

definition example_loader :: "(unit, nat) ModuleLoaderTool" where
  "example_loader = run configuration new_ModuleLoaderTool"

definition loading :: "(unit, nat) ModuleLoaderTool" where
  "loading = run (configuration @ [LoadBundleByName ''a'']) new_ModuleLoaderTool"

definition loaded_on_demand :: "(unit, nat) ModuleLoaderTool" where
  "loaded_on_demand =
     run (configuration @ load_and_compile @ [Advance example_reply ''a'']) new_ModuleLoaderTool"

definition compiled_with_hook_pending :: "(unit, nat) ModuleLoaderTool" where
  "compiled_with_hook_pending = run (with_postprocessor @ load_and_compile) new_ModuleLoaderTool"

definition failed_with_module_cached :: "(unit, nat) ModuleLoaderTool" where
  "failed_with_module_cached =
     run (with_postprocessor @ load_and_compile @ [Advance example_reply ''a''])
       new_ModuleLoaderTool"

definition postprocessor_threw :: "(unit, nat) ModuleLoaderTool" where
  "postprocessor_threw =
     run (with_throwing_postprocessor @ load_and_compile) new_ModuleLoaderTool"

definition preprocessor_throws :: "(unit, nat) ModuleLoaderTool" where
  "preprocessor_throws = run with_throwing_preprocessor new_ModuleLoaderTool"

definition retrieval_failed :: "(unit, nat) ModuleLoaderTool" where
  "retrieval_failed =
     run (configuration @
          [LoadBundleByName ''a'', Advance example_reply ''a'', Advance (Response 404 example_source) ''a''])
       new_ModuleLoaderTool"

definition unconfigured :: "(unit, nat) ModuleLoaderTool" where
  "unconfigured = run [SetBundlesList [example_manifest]] new_ModuleLoaderTool"

definition empty_configuration :: "(unit, nat) event list" where
  "empty_configuration =
     [DefineUrlFormatter name, DefineEntrypoint \<lparr>manifestUrl = ''list''\<rparr>, SetBundlesList []]"

definition manually_defined :: "(unit, nat) ModuleLoaderTool" where
  "manually_defined =
     run (empty_configuration @ [ManuallyDefineBundle example_manifest example_module])
       new_ModuleLoaderTool"

definition preprocessor_rejected :: "(unit, nat) ModuleLoaderTool" where
  "preprocessor_rejected =
     run (with_preprocessor @ [LoadBundleByName ''a'', Advance example_reply ''a''])
       new_ModuleLoaderTool"

section \<open>The invariants hold in every execution\<close>

lemma consistent_stage: "consistent s \<Longrightarrow> loadersCache s n = Some st \<Longrightarrow> stage_ok (bundlesCache s n) n st"
  by (simp add: consistent_def)

lemma consistent_list:
  "consistent s \<Longrightarrow> bundlesList s = None \<Longrightarrow> bundlesCache s n = None \<and> loadersCache s n = None"
  by (simp add: consistent_def)

lemma consistent_new: "consistent new_ModuleLoaderTool"
  by (simp add: consistent_def new_ModuleLoaderTool_def)

lemma consistent_advance:
  assumes "consistent s"
  shows "consistent (advance reply n s)"
proof (cases "loadersCache s n")
  case None
  then show ?thesis using assms by (simp add: advance_def)
next
  case (Some st0)
  have ok: "stage_ok (bundlesCache s n) n st0" using assms Some by (rule consistent_stage)
  have f1: "\<forall>m url out. st0 = Preprocessing m url out \<longrightarrow> name m = n"
    and f2: "\<forall>m url. st0 = Fetching m url \<longrightarrow> name m = n"
    and f3: "\<forall>m c out. st0 = Postprocessing m c out \<longrightarrow> name m = n \<and> bundlesCache s n = Some c"
    using ok by auto
  have 1: "stage_ok (bundlesCache (advance reply n s) k) k st"
    if "loadersCache (advance reply n s) k = Some st" for k st
    using that assms f1 f2 f3 Some unfolding consistent_def
    by (auto simp: advance_def catchLoadError_def Let_def split: option.splits load_stage.splits sum.splits prod.splits call_result.splits if_splits)
  have 2: "bundlesCache (advance reply n s) k = None \<and> loadersCache (advance reply n s) k = None"
    if "bundlesList (advance reply n s) = None" for k
    using that assms f1 f2 f3 Some unfolding consistent_def
    by (auto simp: advance_def catchLoadError_def Let_def split: option.splits load_stage.splits sum.splits prod.splits call_result.splits if_splits)
  show ?thesis unfolding consistent_def using 1 2 by blast
qed

lemma consistent_loadBundleByManifest:
  assumes "consistent s" "bundlesList s \<noteq> None"
  shows "consistent (snd (loadBundleByManifest m s))"
proof -
  have 1: "stage_ok (bundlesCache (snd (loadBundleByManifest m s)) k) k st"
    if "loadersCache (snd (loadBundleByManifest m s)) k = Some st" for k st
    using that assms unfolding consistent_def
    by (auto simp: loadBundleByManifest_def Let_def split: option.splits prod.splits call_result.splits if_splits)
  have 2: "bundlesList (snd (loadBundleByManifest m s)) \<noteq> None"
    using assms
    by (auto simp: loadBundleByManifest_def Let_def split: option.splits prod.splits call_result.splits if_splits)
  show ?thesis unfolding consistent_def using 1 2 by blast
qed

lemma loadBundleByManifest_list:
  "bundlesList (snd (loadBundleByManifest m s)) = bundlesList s"
  by (auto simp: loadBundleByManifest_def Let_def split: option.splits prod.splits call_result.splits)

lemma consistent_loadEach:
  assumes "consistent s" "bundlesList s \<noteq> None"
  shows "consistent (snd (loadEach ms s)) \<and> bundlesList (snd (loadEach ms s)) = bundlesList s"
  using assms
proof (induction ms arbitrary: s)
  case Nil
  then show ?case by simp
next
  case (Cons m ms)
  obtain r s1 where l: "loadBundleByManifest m s = (r, s1)" by (cases "loadBundleByManifest m s")
  have c1: "consistent s1" using consistent_loadBundleByManifest [OF Cons.prems, of m] l by simp
  have b1: "bundlesList s1 = bundlesList s" using loadBundleByManifest_list [of m s] l by simp
  have ih: "consistent (snd (loadEach ms s1)) \<and> bundlesList (snd (loadEach ms s1)) = bundlesList s1"
    using Cons.IH [of s1] c1 b1 Cons.prems by simp
  show ?case
    using l c1 b1 ih by (auto split: sum.splits prod.splits)
qed

lemma consistent_manuallyDefineBundle:
  assumes "consistent s"
  shows "consistent (snd (manuallyDefineBundle m b s))"
proof -
  have 1: "stage_ok (bundlesCache (snd (manuallyDefineBundle m b s)) k) k st"
    if "loadersCache (snd (manuallyDefineBundle m b s)) k = Some st" for k st
  proof -
    have "stage_ok (bundlesCache s k) k st"
      using that assms unfolding consistent_def
      by (auto simp: manuallyDefineBundle_def setBundlesList_def Let_def split: option.splits if_splits)
    then show ?thesis
      by (cases st) (auto simp: manuallyDefineBundle_def setBundlesList_def Let_def split: option.splits if_splits)
  qed
  have 2: "bundlesCache (snd (manuallyDefineBundle m b s)) k = None \<and> loadersCache (snd (manuallyDefineBundle m b s)) k = None"
    if "bundlesList (snd (manuallyDefineBundle m b s)) = None" for k
    using that assms unfolding consistent_def
    by (auto simp: manuallyDefineBundle_def setBundlesList_def Let_def split: option.splits if_splits)
  show ?thesis unfolding consistent_def using 1 2 by blast
qed

lemma consistent_apply_event:
  assumes "consistent s"
  shows "consistent (apply_event ev s)"
proof (cases ev)
  case (BulkLoadBundles f)
  show ?thesis
  proof (cases "bundlesList s")
    case None
    then show ?thesis using assms BulkLoadBundles by (simp add: bulkLoadBundles_def)
  next
    case (Some list)
    then show ?thesis using assms BulkLoadBundles consistent_loadEach [of s "filter f list"]
      by (simp add: bulkLoadBundles_def)
  qed
next
  case (LoadBundleByName n)
  show ?thesis
  proof (cases "bundlesList s")
    case None
    then show ?thesis using assms LoadBundleByName by (simp add: loadBundleByName_def)
  next
    case (Some list)
    then show ?thesis using assms LoadBundleByName consistent_loadBundleByManifest [of s]
      by (simp add: loadBundleByName_def split: option.splits)
  qed
next
  case (ManuallyDefineBundle m b)
  then show ?thesis using assms by (simp add: consistent_manuallyDefineBundle)
next
  case (Advance reply n)
  then show ?thesis using assms by (simp add: consistent_advance)
next
  case (BulkLoaded tasks)
  then show ?thesis using assms
    by (auto simp: consistent_def bulkLoaded_def split: option.splits sum.splits prod.splits)
qed (use assms in \<open>auto simp: consistent_def defineDependencies_def defineUnknownDependencyResolver_def
      defineUrlFormatter_def defineEntrypoint_def setBundlesList_def registerType_def\<close>)

lemma consistent_run: "consistent s \<Longrightarrow> consistent (run evs s)"
  unfolding run_def by (induction evs arbitrary: s) (simp_all add: consistent_apply_event)

section \<open>Counting retrievals and compilations\<close>

lemma getModuleType_warnings: "warnings (snd (getModuleTypeByManifest p m))"
  by (auto simp: getModuleTypeByManifest_def warnings_def split: option.splits)

lemma runPreprocessor_warnings: "runPreprocessors p m = (r, w) \<Longrightarrow> warnings w"
  using getModuleType_warnings [of p m]
  by (auto simp: runPreprocessors_def runPreprocessor_def split: prod.splits option.splits if_splits)

lemma runPostprocessor_warnings: "runPostprocessors p m c = (r, w) \<Longrightarrow> warnings w"
  using getModuleType_warnings [of p m]
  by (auto simp: runPostprocessors_def runPostprocessor_def
      split: prod.splits option.splits if_splits)

lemma retrievals_append: "retrievals n (es @ fs) = retrievals n es + retrievals n fs"
  by (simp add: retrievals_def)

lemma compilations_append: "compilations n (es @ fs) = compilations n es + compilations n fs"
  by (simp add: compilations_def)

lemma startInvocations_append:
  "startInvocations n (es @ fs) = startInvocations n es + startInvocations n fs"
  by (simp add: startInvocations_def)

lemmas count_append = retrievals_append compilations_append startInvocations_append

lemma warnings_count:
  "warnings w \<Longrightarrow> retrievals n w = 0"
  "warnings w \<Longrightarrow> compilations n w = 0"
  "warnings w \<Longrightarrow> startInvocations e w = 0"
  by (auto simp: warnings_def retrievals_def compilations_def startInvocations_def)

lemma startCalls_count:
  "retrievals n (fst (startCalls bs)) = 0"
  "compilations n (fst (startCalls bs)) = 0"
  by (induction bs) (auto simp: retrievals_def compilations_def split: option.splits prod.splits)

lemma startCalls_count':
  "startCalls bs = (es, r) \<Longrightarrow> retrievals n es = 0"
  "startCalls bs = (es, r) \<Longrightarrow> compilations n es = 0"
  using startCalls_count [of n bs] by simp_all

lemma bulkLoaded_frame:
  "\<exists>es. snd (bulkLoaded tasks s) = s\<lparr>effects := effects s @ es\<rparr> \<and>
        (\<forall>n. retrievals n es = 0 \<and> compilations n es = 0)"
proof (cases "promiseAll s tasks")
  case None
  then have "snd (bulkLoaded tasks s) = s\<lparr>effects := effects s @ []\<rparr>"
    by (simp add: bulkLoaded_def)
  then show ?thesis by (metis retrievals_def compilations_def filter.simps(1) list.size(3))
next
  case (Some r)
  show ?thesis
  proof (cases r)
    case (Inl reason)
    then have "snd (bulkLoaded tasks s) = s\<lparr>effects := effects s @ []\<rparr>"
      using Some by (simp add: bulkLoaded_def)
    then show ?thesis by (metis retrievals_def compilations_def filter.simps(1) list.size(3))
  next
    case (Inr bs)
    obtain es q where sc: "startCalls bs = (es, q)" by (cases "startCalls bs")
    have "snd (bulkLoaded tasks s) = s\<lparr>effects := effects s @ es\<rparr>"
      using Some Inr sc by (cases q) (simp_all add: bulkLoaded_def)
    then show ?thesis using startCalls_count' [OF sc] by blast
  qed
qed

lemma retrievals_simps:
  "retrievals n [] = 0"
  "retrievals n (Retrieved k u # es) = (if k = n then Suc (retrievals n es) else retrievals n es)"
  "retrievals n (Compiled k # es) = retrievals n es"
  "retrievals n (ConsoleError msg # es) = retrievals n es"
  "retrievals n (ConsoleWarn msg # es) = retrievals n es"
  "retrievals n (StartCalled e # es) = retrievals n es"
  "retrievals n (RunnerCalled # es) = retrievals n es"
  by (simp_all add: retrievals_def)

lemma compilations_simps:
  "compilations n [] = 0"
  "compilations n (Retrieved k u # es) = compilations n es"
  "compilations n (Compiled k # es) = (if k = n then Suc (compilations n es) else compilations n es)"
  "compilations n (ConsoleError msg # es) = compilations n es"
  "compilations n (ConsoleWarn msg # es) = compilations n es"
  "compilations n (StartCalled e # es) = compilations n es"
  "compilations n (RunnerCalled # es) = compilations n es"
  by (simp_all add: compilations_def)

lemma startInvocations_simps:
  "startInvocations n [] = 0"
  "startInvocations n (Retrieved k u # es) = startInvocations n es"
  "startInvocations n (Compiled k # es) = startInvocations n es"
  "startInvocations n (ConsoleError msg # es) = startInvocations n es"
  "startInvocations n (ConsoleWarn msg # es) = startInvocations n es"
  "startInvocations n (StartCalled e # es) = (if e = n then Suc (startInvocations n es) else startInvocations n es)"
  "startInvocations n (RunnerCalled # es) = startInvocations n es"
  by (simp_all add: startInvocations_def)

lemmas count_simps = count_append retrievals_simps compilations_simps startInvocations_simps
  warnings_count startCalls_count









section \<open>Settled tasks stay as they are\<close>

lemma kept_refl: "kept n s s"
  by (simp add: kept_def)

lemma kept_trans: "kept n s s1 \<Longrightarrow> kept n s1 s2 \<Longrightarrow> kept n s s2"
  by (auto simp: kept_def)

lemma kept_advance:
  assumes "consistent s" "loadersCache s n = Some (Settled out)"
  shows "kept n s (advance reply k s)"
proof (cases "loadersCache s k")
  case None
  then show ?thesis by (simp add: advance_def kept_def)
next
  case (Some st0)
  have ok: "stage_ok (bundlesCache s k) k st0" using assms(1) Some by (rule consistent_stage)
  have f1: "\<forall>m url out. st0 = Preprocessing m url out \<longrightarrow> name m = k"
    and f2: "\<forall>m url. st0 = Fetching m url \<longrightarrow> name m = k"
    and f3: "\<forall>m c out. st0 = Postprocessing m c out \<longrightarrow> name m = k \<and> bundlesCache s k = Some c"
    using ok by auto
  show ?thesis
    using assms(2) f1 f2 f3 Some unfolding kept_def
    by (auto simp: advance_def catchLoadError_def Let_def count_simps
        dest!: runPostprocessor_warnings
        split: option.splits load_stage.splits sum.splits prod.splits call_result.splits if_splits)
qed

lemma kept_loadBundleByManifest:
  assumes "loadersCache s n = Some (Settled out)"
  shows "kept n s (snd (loadBundleByManifest m s))"
  using assms unfolding kept_def
  by (auto simp: loadBundleByManifest_def Let_def count_simps
      dest!: runPreprocessor_warnings
      split: option.splits prod.splits call_result.splits if_splits)

lemma kept_loadEach:
  assumes "loadersCache s n = Some (Settled out)"
  shows "kept n s (snd (loadEach ms s))"
  using assms
proof (induction ms arbitrary: s)
  case Nil
  then show ?case by (simp add: kept_refl)
next
  case (Cons m ms)
  obtain r s1 where l: "loadBundleByManifest m s = (r, s1)" by (cases "loadBundleByManifest m s")
  have k1: "kept n s s1" using kept_loadBundleByManifest [OF Cons.prems, of m] l by simp
  then have "loadersCache s1 n = Some (Settled out)" using Cons.prems by (simp add: kept_def)
  then have k2: "kept n s1 (snd (loadEach ms s1))" by (rule Cons.IH)
  show ?case
    using l k1 kept_trans [OF k1 k2] by (auto split: sum.splits prod.splits)
qed

lemma kept_apply_event:
  assumes "consistent s" "loadersCache s n = Some (Settled out)"
  shows "kept n s (apply_event ev s)"
proof (cases ev)
  case (BulkLoadBundles f)
  then show ?thesis using assms(2) kept_loadEach [of s n out]
    by (auto simp: bulkLoadBundles_def kept_refl split: option.splits)
next
  case (LoadBundleByName k)
  then show ?thesis using assms(2) kept_loadBundleByManifest [of s n out]
    by (auto simp: loadBundleByName_def kept_refl split: option.splits)
next
  case (ManuallyDefineBundle m b)
  then show ?thesis
    by (auto simp: kept_def manuallyDefineBundle_def setBundlesList_def Let_def count_simps
        split: option.splits)
next
  case (Advance reply k)
  then show ?thesis using assms by (simp add: kept_advance)
next
  case (BulkLoaded tasks)
  obtain es where "snd (bulkLoaded tasks s) = s\<lparr>effects := effects s @ es\<rparr>"
    and "\<forall>n. retrievals n es = 0 \<and> compilations n es = 0"
    using bulkLoaded_frame [of tasks s] by blast
  then show ?thesis using BulkLoaded by (simp add: kept_def count_append)
qed (auto simp: kept_def defineDependencies_def defineUnknownDependencyResolver_def
      defineUrlFormatter_def defineEntrypoint_def setBundlesList_def registerType_def count_simps)

lemma kept_run:
  assumes "consistent s" "loadersCache s n = Some (Settled out)"
  shows "kept n s (run evs s)"
  using assms
proof (induction evs arbitrary: s)
  case Nil
  then show ?case by (simp add: run_def kept_refl)
next
  case (Cons ev evs)
  have k1: "kept n s (apply_event ev s)" using Cons.prems by (rule kept_apply_event)
  have c1: "consistent (apply_event ev s)" using Cons.prems(1) by (rule consistent_apply_event)
  have l1: "loadersCache (apply_event ev s) n = Some (Settled out)"
    using k1 Cons.prems(2) by (simp add: kept_def)
  have "kept n (apply_event ev s) (run evs (apply_event ev s))"
    using c1 l1 by (rule Cons.IH)
  then show ?case using k1 by (auto simp: run_def intro: kept_trans)
qed

lemma run_append: "run (evs @ evs') s = run evs' (run evs s)"
  by (simp add: run_def)

lemma consistent_reachable: "consistent (run evs new_ModuleLoaderTool)"
  using consistent_new by (rule consistent_run)


section \<open>Single calls\<close>

lemma loadBundleByManifest_cached:
  "bundlesCache s (name m) = Some c \<Longrightarrow> loadBundleByManifest m s = (Inr (ResolvedTask c), s)"
  by (simp add: loadBundleByManifest_def)

lemma loadBundleByManifest_in_flight:
  "bundlesCache s (name m) = None \<Longrightarrow> loadersCache s (name m) = Some st \<Longrightarrow>
   loadBundleByManifest m s = (Inr (LoaderTask (name m)), s)"
  by (simp add: loadBundleByManifest_def)

text \<open>
  The handler of the final \<^verbatim>\<open>.catch\<close> contains every failure whose reason has a
  message to read: it logs the name and the message, and the task resolves to no module.
\<close>

lemma failure_with_message_is_contained:
  assumes "message ex = Inr msg"
  shows "loadersCache (catchLoadError n m ex s) n = Some (Settled (Resolved None)) \<and>
         effects (catchLoadError n m ex s) =
           effects s @ [ConsoleError (''Module: '' @ name m @ ''. Error: '' @ msg)]"
  using assms by (simp add: catchLoadError_def)

lemma loadBundleByManifest_extends:
  "\<exists>es. effects (snd (loadBundleByManifest m s)) = effects s @ es"
  by (auto simp: loadBundleByManifest_def Let_def split: option.splits prod.splits call_result.splits)

lemma loadEach_extends: "\<exists>es. effects (snd (loadEach ms s)) = effects s @ es"
proof (induction ms arbitrary: s)
  case Nil
  then show ?case by simp
next
  case (Cons m ms)
  obtain r s1 where l: "loadBundleByManifest m s = (r, s1)" by (cases "loadBundleByManifest m s")
  obtain es where e1: "effects s1 = effects s @ es"
    using loadBundleByManifest_extends [of m s] l by auto
  obtain fs where e2: "effects (snd (loadEach ms s1)) = effects s1 @ fs"
    using Cons.IH [of s1] by auto
  show ?case using l e1 e2 by (auto split: sum.splits prod.splits)
qed

lemma bulkLoadBundles_extends: "\<exists>es. effects (snd (bulkLoadBundles f s)) = effects s @ es"
  using loadEach_extends [of _ s] by (auto simp: bulkLoadBundles_def split: option.splits)

lemma bulkLoaded_extends: "\<exists>es. effects (snd (bulkLoaded tasks s)) = effects s @ es"
  by (auto simp: bulkLoaded_def split: option.splits sum.splits prod.splits)

lemma startStep_extends: "\<exists>es. effects (snd (startStep t s)) = effects s @ es"
proof (cases "(t, s)" rule: startStep.cases)
  case (4 s0)
  then show ?thesis
    using bulkLoadBundles_extends [of "\<lambda>manifest. loadStrategy manifest = IMMEDIATELY" s]
    by (auto split: prod.splits sum.splits)
next
  case (5 tasks s0)
  then show ?thesis using bulkLoaded_extends [of tasks s]
    by (auto split: prod.splits void_task.splits)
qed auto

lemma startSteps_extends: "\<exists>es. effects (snd (startSteps k t s)) = effects s @ es"
proof (induction k arbitrary: t s)
  case 0
  then show ?case by simp
next
  case (Suc k)
  obtain t1 s1 where st: "startStep t s = (t1, s1)" by (cases "startStep t s")
  obtain es where e1: "effects s1 = effects s @ es" using startStep_extends [of t s] st by auto
  obtain fs where e2: "effects (snd (startSteps k t1 s1)) = effects s1 @ fs"
    using Suc [of t1 s1] by auto
  show ?case using st e1 e2 by simp
qed

lemma startSteps_done: "startSteps k (StartDone out) s = (StartDone out, s)"
  by (induction k) simp_all


section \<open>The example executions\<close>

lemmas op_defs = run_def new_ModuleLoaderTool_def defineDependencies_def
  defineUnknownDependencyResolver_def defineUrlFormatter_def defineEntrypoint_def
  registerManifestType_def setBundlesList_def loadBundleByName_def loadBundleByManifest_def
  runPreprocessor_def runPostprocessor_def runPreprocessors_def runPostprocessors_def
  registerType_def startThrown_def getModuleTypeByManifest_def advance_def
  catchLoadError_def fetchBundleSource_def compileSource_def InvalidHttpStatusStart_def
  bulkLoadBundles_def bulkLoaded_def manuallyDefineBundle_def isBundleLoaded_def Let_def

lemmas example_defs = configuration_def with_preprocessor_def with_postprocessor_def
  load_and_compile_def example_loader_def loading_def loaded_on_demand_def
  compiled_with_hook_pending_def failed_with_module_cached_def preprocessor_rejected_def
  example_manifest_def example_module_def example_exports_def example_source_def
  example_reply_def any_manifest_def rejecting_preprocessor_def failing_postprocessor_def
  other_module_def throwing_module_def throwing_postprocessor_def
  with_throwing_postprocessor_def postprocessor_threw_def unconfigured_def manually_defined_def
  throwing_preprocessor_def with_throwing_preprocessor_def preprocessor_throws_def
  retrieval_failed_def empty_configuration_def

lemma name_example: "name example_manifest = ''a''"
  by (simp add: example_manifest_def)

lemma loading_state:
  "bundlesCache example_loader ''a'' = None"
  "loadersCache example_loader ''a'' = None"
  "bundlesCache loading ''a'' = None"
  "loadersCache loading ''a'' = Some (Preprocessing example_manifest ''a'' None)"
  "loadBundleByManifest example_manifest example_loader = (Inr (LoaderTask ''a''), loading)"
  by (simp_all add: op_defs example_defs)

lemma failed_state:
  "loadersCache compiled_with_hook_pending ''a'' =
     Some (Postprocessing example_manifest example_module (Some (Thrown Error ''hook'')))"
  "failed_with_module_cached = advance example_reply ''a'' compiled_with_hook_pending"
  "loadersCache failed_with_module_cached ''a'' = Some (Settled (Resolved None))"
  "bundlesCache failed_with_module_cached ''a'' = Some example_module"
  "run [LoadBundleByName ''a''] failed_with_module_cached = failed_with_module_cached"
  by (simp_all add: op_defs example_defs)

lemma loaded_state:
  "bundlesList loaded_on_demand = Some [example_manifest]"
  "bundlesListStream loaded_on_demand = [[], [example_manifest]]"
  "bundlesCache loaded_on_demand ''a'' = Some example_module"
  "loadersCache loaded_on_demand ''a'' = Some (Settled (Resolved (Some example_module)))"
  "startInvocations ''go'' (effects loaded_on_demand) = 0"
  by (simp_all add: op_defs example_defs count_simps)




lemma retrieval_failed_state:
  "loadersCache retrieval_failed ''a'' = Some (Settled (Resolved None))"
  "bundlesCache retrieval_failed ''a'' = None"
  "bundlesCache (run [CallRunner, LoadBundleByName ''a''] retrieval_failed) ''a'' = None"
  "effects (run [CallRunner, LoadBundleByName ''a''] retrieval_failed) =
     effects retrieval_failed @ [RunnerCalled]"
  by (simp_all add: op_defs example_defs)

lemma later_state:
  "bundlesCache (run [CallRunner, LoadBundleByName ''a''] loaded_on_demand) ''a'' =
     Some example_module"
  "effects (run [CallRunner, LoadBundleByName ''a''] loaded_on_demand) =
     effects loaded_on_demand @ [RunnerCalled]"
  by (simp_all add: op_defs example_defs)

lemma manually_defined_state:
  "bundlesList manually_defined = Some [example_manifest]"
  "bundlesCache manually_defined ''a'' = Some example_module"
  "loadersCache manually_defined ''a'' = None"
  "effects manually_defined = [StartCalled ''go'']"
  by (simp_all add: op_defs example_defs)

section \<open>The source compiler\<close>

text \<open>
  What the \<^verbatim>\<open>catch\<close> around \<^verbatim>\<open>eval\<close> makes of a failure of the source text,
  whatever it is: a CompileModuleError with the message of what was thrown, or the
  TypeError of reading the message of \<^verbatim>\<open>undefined\<close>. The only error with which
  \<^verbatim>\<open>require\<close> fails is a NoDependencyError that names the dependency.
\<close>

lemma compileSource_wraps:
  assumes "evalSource (require deps resolver) source = Inl ex"
  shows "compileSource source deps resolver =
           (case message ex of
              Inl typeError \<Rightarrow> Inl typeError
            | Inr msg \<Rightarrow> Inl (Thrown CompileModuleError (''Cant compile module: '' @ msg)))"
  using assms by (simp add: compileSource_def)

lemma require_fails_with_NoDependencyError:
  "require deps resolver n = Inl e \<Longrightarrow> e = Thrown NoDependencyError (no_dependency_message n)"
  by (auto simp: require_def split: option.splits)

lemma compileSource_never_NoDependencyError:
  "compileSource source deps resolver \<noteq> Inl (Thrown NoDependencyError msg)"
proof (cases "evalSource (require deps resolver) source")
  case (Inl ex)
  then show ?thesis by (cases ex) (simp_all add: compileSource_def)
next
  case (Inr e)
  then show ?thesis by (simp add: compileSource_def)
qed

text \<open>
  C3. Compile should signal a missing dependency as a NoDependencyError and a failure of
  the source text as a CompileModuleError with the underlying message, so that a caller
  can tell the two apart by the type. The code departs from this. For the source text
  \<^verbatim>\<open>require('x')\<close>, an empty dependency map and a resolver that yields nothing,
  \<^verbatim>\<open>require\<close> throws the NoDependencyError, the \<^verbatim>\<open>catch\<close> around
  \<^verbatim>\<open>eval\<close> catches it, and compile throws a CompileModuleError, whose message names
  the dependency and not the requesting module. And for the source text
  \<^verbatim>\<open>throw undefined\<close> the same \<^verbatim>\<open>catch\<close> reads the message of
  \<^verbatim>\<open>undefined\<close>, so compile throws a TypeError.
\<close>

theorem missing_dependency_leaves_compile_as_compile_error:
  "require (Map.empty :: nat ModuleDependencies) (Some Map.empty) ''x'' =
     Inl (Thrown NoDependencyError (no_dependency_message ''x'')) \<and>
   compileSource (requiring ''x'' example_exports) Map.empty (Some Map.empty) =
     Inl (Thrown CompileModuleError (''Cant compile module: '' @ no_dependency_message ''x'')) \<and>
   compileSource (Throw Nullish) (Map.empty :: nat ModuleDependencies) (Some Map.empty) =
     Inl (Thrown TypeError ''Cannot read properties of undefined'')"
  by (simp add: require_def compileSource_def requiring_def)

text \<open>
  C4. The lookup of a name that neither the dependency map nor the resolver provides should
  fail with a NoDependencyError, also when no resolver is configured. The code departs
  from this: with no resolver configured the lookup does not fail, \<^verbatim>\<open>require\<close>
  returns \<^verbatim>\<open>undefined\<close> to the compiled code, and the compilation goes on to succeed.
\<close>

theorem require_without_resolver_returns_undefined:
  "require (Map.empty :: nat ModuleDependencies) None ''x'' = Inr None \<and>
   compileSource (requiring ''x'' example_exports) Map.empty None = Inr example_module"
  by (simp add: require_def compileSource_def requiring_def example_module_def)

section \<open>Concurrent and repeated loads\<close>




text \<open>
  C5 (as amended). For every name whose load has settled, in every later state a load
  request for that name changes nothing (no retrieval, no compilation) and returns the
  module in the compiled cache if there is one, also when the load itself resolved to no
  module, and the settled outcome of the load otherwise; the retrievals and compilations
  of the name stay as they were and a module cached for it stays. In particular, loading
  an already-cached name performs no retrieval and returns the cached module.
\<close>

theorem settled_load_is_memoised:
  assumes "s = run evs new_ModuleLoaderTool"
    and "loadersCache s (name m) = Some (Settled out)"
    and "s' = run evs' s"
  shows "loadBundleByManifest m s' =
           (Inr (case bundlesCache s' (name m) of
                   Some c \<Rightarrow> ResolvedTask c
                 | None \<Rightarrow> LoaderTask (name m)), s') \<and>
         taskOutcome s' (case bundlesCache s' (name m) of
                           Some c \<Rightarrow> ResolvedTask c
                         | None \<Rightarrow> LoaderTask (name m)) =
           Some (case bundlesCache s' (name m) of
                   Some c \<Rightarrow> Resolved (Some c)
                 | None \<Rightarrow> out) \<and>
         retrievals (name m) (effects s') = retrievals (name m) (effects s) \<and>
         compilations (name m) (effects s') = compilations (name m) (effects s) \<and>
         (bundlesCache s (name m) = None \<or> bundlesCache s' (name m) = bundlesCache s (name m)) \<and>
         (bundlesCache s0 (name m0) = Some c0 \<longrightarrow>
            loadBundleByManifest m0 s0 = (Inr (ResolvedTask c0), s0))"
proof -
  have c: "consistent s" using assms(1) consistent_reachable by simp
  have k: "kept (name m) s s'" using c assms(2) unfolding assms(3) by (rule kept_run)
  have l: "loadersCache s' (name m) = Some (Settled out)" using k assms(2) by (simp add: kept_def)
  have r: "retrievals (name m) (effects s') = retrievals (name m) (effects s)"
    and p: "compilations (name m) (effects s') = compilations (name m) (effects s)"
    and b: "bundlesCache s (name m) = None \<or> bundlesCache s' (name m) = bundlesCache s (name m)"
    using k by (simp_all add: kept_def)
  show ?thesis
  proof (cases "bundlesCache s' (name m)")
    case None
    have "loadBundleByManifest m s' = (Inr (LoaderTask (name m)), s')"
      using None l by (rule loadBundleByManifest_in_flight)
    moreover have "taskOutcome s' (LoaderTask (name m)) = Some out" by (simp add: l)
    ultimately show ?thesis using None r p b by (simp add: loadBundleByManifest_cached)
  next
    case (Some c)
    have "loadBundleByManifest m s' = (Inr (ResolvedTask c), s')"
      using Some by (rule loadBundleByManifest_cached)
    then show ?thesis using Some r p b by (simp add: loadBundleByManifest_cached)
  qed
qed

theorem settled_load_is_memoised_witness:
  "loadersCache loaded_on_demand ''a'' = Some (Settled (Resolved (Some example_module))) \<and>
   effects (run [CallRunner, LoadBundleByName ''a''] loaded_on_demand) =
     effects loaded_on_demand @ [RunnerCalled] \<and>
   loadBundleByManifest example_manifest (run [CallRunner, LoadBundleByName ''a''] loaded_on_demand) =
     (Inr (ResolvedTask example_module), run [CallRunner, LoadBundleByName ''a''] loaded_on_demand) \<and>
   retrievals ''a'' (effects (run [CallRunner, LoadBundleByName ''a''] loaded_on_demand)) =
     retrievals ''a'' (effects loaded_on_demand) \<and>
   loadersCache retrieval_failed ''a'' = Some (Settled (Resolved None)) \<and>
   effects (run [CallRunner, LoadBundleByName ''a''] retrieval_failed) =
     effects retrieval_failed @ [RunnerCalled] \<and>
   loadBundleByManifest example_manifest (run [CallRunner, LoadBundleByName ''a''] retrieval_failed) =
     (Inr (LoaderTask ''a''), run [CallRunner, LoadBundleByName ''a''] retrieval_failed) \<and>
   taskOutcome (run [CallRunner, LoadBundleByName ''a''] retrieval_failed) (LoaderTask ''a'') =
     Some (Resolved None) \<and>
   compilations ''a'' (effects (run [CallRunner, LoadBundleByName ''a''] retrieval_failed)) =
     compilations ''a'' (effects retrieval_failed)"
proof -
  note cached = settled_load_is_memoised
    [of loaded_on_demand "configuration @ load_and_compile @ [Advance example_reply ''a'']"
      example_manifest "Resolved (Some example_module)"
      "run [CallRunner, LoadBundleByName ''a''] loaded_on_demand"
      "[CallRunner, LoadBundleByName ''a'']"
      loaded_on_demand example_manifest example_module]
  note failed = settled_load_is_memoised
    [of retrieval_failed
      "configuration @ [LoadBundleByName ''a'', Advance example_reply ''a'',
         Advance (Response 404 example_source) ''a'']"
      example_manifest "Resolved None"
      "run [CallRunner, LoadBundleByName ''a''] retrieval_failed"
      "[CallRunner, LoadBundleByName ''a'']"
      loaded_on_demand example_manifest example_module]
  have "loadBundleByManifest example_manifest (run [CallRunner, LoadBundleByName ''a''] loaded_on_demand) =
     (Inr (ResolvedTask example_module), run [CallRunner, LoadBundleByName ''a''] loaded_on_demand)"
    and "retrievals ''a'' (effects (run [CallRunner, LoadBundleByName ''a''] loaded_on_demand)) =
     retrievals ''a'' (effects loaded_on_demand)"
    using cached loaded_state later_state(1)
    by (simp_all add: name_example loaded_on_demand_def [symmetric])
  moreover have "loadBundleByManifest example_manifest
       (run [CallRunner, LoadBundleByName ''a''] retrieval_failed) =
     (Inr (LoaderTask ''a''), run [CallRunner, LoadBundleByName ''a''] retrieval_failed)"
    and "taskOutcome (run [CallRunner, LoadBundleByName ''a''] retrieval_failed) (LoaderTask ''a'') =
     Some (Resolved None)"
    and "compilations ''a'' (effects (run [CallRunner, LoadBundleByName ''a''] retrieval_failed)) =
     compilations ''a'' (effects retrieval_failed)"
    using failed retrieval_failed_state(1,3)
    by (simp_all add: name_example retrieval_failed_def [symmetric])
  ultimately show ?thesis using loaded_state later_state(2) retrieval_failed_state(1,4) by simp
qed

text \<open>
  The claim as stated fails for a load that failed in its postprocessor: the load settled
  with no module, and the next request for the name returns the module.
\<close>

theorem failed_load_counterexample:
  "taskOutcome failed_with_module_cached (LoaderTask ''a'') = Some (Resolved None) \<and>
   fst (loadBundleByName ''a'' failed_with_module_cached) = Inr (ResolvedTask example_module) \<and>
   taskOutcome failed_with_module_cached (ResolvedTask example_module) =
     Some (Resolved (Some example_module))"
  by (simp add: op_defs example_defs)

section \<open>Failures of a load\<close>

text \<open>
  A postprocessor that fails after a successful compile finds the module in the compiled
  cache already, and the module stays there. When the task the postprocessor returned
  rejects, whatever the reason, the load resolves to no module; in every later state
  \<^verbatim>\<open>isBundleLoaded\<close> holds for the name and a load request for the name returns the
  cached module.
\<close>

lemma failed_postprocessor_leaves_module_cached:
  assumes "s = run evs new_ModuleLoaderTool"
    and "loadersCache s n = Some (Postprocessing m c (Some reason))"
    and "s1 = advance reply n s"
    and "s2 = run evs' s1"
    and "name m' = n"
  shows "bundlesCache s n = Some c \<and>
         loadersCache s1 n = Some (Settled (Resolved None)) \<and>
         isBundleLoaded s1 n \<and>
         taskOutcome s2 (LoaderTask n) = Some (Resolved None) \<and>
         isBundleLoaded s2 n \<and>
         loadBundleByManifest m' s2 = (Inr (ResolvedTask c), s2) \<and>
         taskOutcome s2 (ResolvedTask c) = Some (Resolved (Some c))"
proof -
  have cs: "consistent s" using assms(1) consistent_reachable by simp
  have ok: "stage_ok (bundlesCache s n) n (Postprocessing m c (Some reason))"
    using cs assms(2) by (rule consistent_stage)
  then have bc: "bundlesCache s n = Some c" by simp
  have l1: "loadersCache s1 n = Some (Settled (Resolved None))"
    using assms(2) unfolding assms(3) by (simp add: advance_def catchLoadError_def)
  have b1: "bundlesCache s1 n = Some c"
    using assms(2) bc unfolding assms(3) by (simp add: advance_def catchLoadError_def)
  have c1: "consistent s1" using cs unfolding assms(3) by (rule consistent_advance)
  have k: "kept n s1 s2" using c1 l1 unfolding assms(4) by (rule kept_run)
  have l2: "loadersCache s2 n = Some (Settled (Resolved None))" using k l1 by (simp add: kept_def)
  have b2: "bundlesCache s2 n = Some c" using k b1 by (simp add: kept_def)
  have "loadBundleByManifest m' s2 = (Inr (ResolvedTask c), s2)"
    using b2 assms(5) by (simp add: loadBundleByManifest_cached)
  then show ?thesis using bc l1 b1 l2 b2 by (simp add: isBundleLoaded_def)
qed

text \<open>
  When the postprocessor throws while it is called, the module is cached and stays as
  well, and the load settles by what the handler of the final \<^verbatim>\<open>.catch\<close> makes of
  the thrown value: it resolves to no module if the value has a message to read, and
  rejects with the handler's own TypeError if it is \<^verbatim>\<open>undefined\<close> or \<^verbatim>\<open>null\<close>.
\<close>

lemma throwing_postprocessor_leaves_module_cached:
  assumes "s = run evs new_ModuleLoaderTool"
    and "loadersCache s n = Some (Fetching m url)"
    and "fetchBundleSource reply = Inr source"
    and "compileSource source (dependencies s) (unknownDependencyResolver s) = Inr c"
    and "fst (runPostprocessors (manifestProcessors s) m c) = Throws ex"
    and "s1 = advance reply n s"
    and "s2 = run evs' s1"
    and "name m' = n"
  shows "loadersCache s1 n =
           Some (Settled (case message ex of
                            Inr msg \<Rightarrow> Resolved None
                          | Inl typeError \<Rightarrow> Rejected typeError)) \<and>
         isBundleLoaded s1 n \<and>
         taskOutcome s2 (LoaderTask n) =
           Some (case message ex of
                   Inr msg \<Rightarrow> Resolved None
                 | Inl typeError \<Rightarrow> Rejected typeError) \<and>
         isBundleLoaded s2 n \<and>
         loadBundleByManifest m' s2 = (Inr (ResolvedTask c), s2)"
proof -
  let ?out = "case message ex of Inr msg \<Rightarrow> Resolved None | Inl typeError \<Rightarrow> Rejected typeError"
  have cs: "consistent s" using assms(1) consistent_reachable by simp
  have "stage_ok (bundlesCache s n) n (Fetching m url)"
    using cs assms(2) by (rule consistent_stage)
  then have nm: "name m = n" by simp
  obtain w where rp: "runPostprocessors (manifestProcessors s) m c = (Throws ex, w)"
    using assms(5) by (cases "runPostprocessors (manifestProcessors s) m c") simp
  have l1: "loadersCache s1 n = Some (Settled ?out)"
    using assms(2,3,4) rp unfolding assms(6)
    by (simp add: advance_def catchLoadError_def Let_def split: sum.splits)
  have b1: "bundlesCache s1 n = Some c"
    using assms(2,3,4) rp nm unfolding assms(6)
    by (simp add: advance_def catchLoadError_def Let_def split: sum.splits)
  have c1: "consistent s1" using cs unfolding assms(6) by (rule consistent_advance)
  have k: "kept n s1 s2" using c1 l1 unfolding assms(7) by (rule kept_run)
  have l2: "loadersCache s2 n = Some (Settled ?out)" using k l1 by (simp add: kept_def)
  have b2: "bundlesCache s2 n = Some c" using k b1 by (simp add: kept_def)
  have "loadBundleByManifest m' s2 = (Inr (ResolvedTask c), s2)"
    using b2 assms(8) by (simp add: loadBundleByManifest_cached)
  then show ?thesis using l1 b1 l2 b2 by (simp add: isBundleLoaded_def)
qed


text \<open>
  C2. Every failure of a step of a managed load should be caught, logged with the name and
  the message, and leave the load's task resolved to no module. The code departs from
  this: a preprocessor that returns \<^verbatim>\<open>Promise.reject()\<close> makes the handler of the
  final \<^verbatim>\<open>.catch\<close> read \<^verbatim>\<open>error.message\<close> of \<^verbatim>\<open>undefined\<close>, so the handler
  throws, nothing is logged, and the load's task rejects with a TypeError.
\<close>

theorem preprocessor_rejection_is_not_contained:
  "loadersCache preprocessor_rejected ''a'' =
     Some (Settled (Rejected (Thrown TypeError ''Cannot read properties of undefined''))) \<and>
   effects preprocessor_rejected = []"
  by (simp add: op_defs example_defs)

section \<open>Start entry points and the order of start\<close>

text \<open>
  C6. For every runner, \<^verbatim>\<open>start\<close> calls the runner first and begins to load no
  manifest before the runner's task has settled. The call of \<^verbatim>\<open>start\<close> itself
  changes nothing; the first thing its task does is call the runner; after that first
  step, and ever after when the runner threw or its task rejected, the loader is as it was
  but for the runner's call. Loads begin in the step that runs once the runner's task has
  resolved.
\<close>

theorem start_waits_for_runner:
  assumes "startSteps k (fst (mlt_start runner s)) (snd (mlt_start runner s)) = (t, s')"
  shows "(k = 0 \<longrightarrow> s' = s) \<and>
         (0 < k \<longrightarrow> (\<exists>es. effects s' = effects s @ RunnerCalled # es)) \<and>
         (k = 1 \<or> (0 < k \<and> runner \<noteq> Returns None) \<longrightarrow>
            s' = s\<lparr>effects := effects s @ [RunnerCalled]\<rparr>)"
proof (cases k)
  case 0
  then show ?thesis using assms by (simp add: mlt_start_def)
next
  case (Suc k1)
  let ?s1 = "s\<lparr>effects := effects s @ [RunnerCalled]\<rparr>"
  show ?thesis
  proof (cases runner)
    case (Throws ex)
    then show ?thesis using assms Suc by (auto simp: mlt_start_def startSteps_done)
  next
    case (Returns out)
    then have st: "startSteps k1 (AwaitRunner out) ?s1 = (t, s')"
      using assms Suc by (simp add: mlt_start_def)
    show ?thesis
    proof (cases k1)
      case 0
      then show ?thesis using st Suc Returns by auto
    next
      case (Suc k2)
      show ?thesis
      proof (cases out)
        case (Some reason)
        then show ?thesis using st Suc \<open>k = Suc k1\<close> Returns by (auto simp: startSteps_done)
      next
        case None
        obtain es where "effects s' = effects ?s1 @ es"
          using startSteps_extends [of k1 "AwaitRunner out" ?s1] st by auto
        then show ?thesis using Suc \<open>k = Suc k1\<close> Returns None by auto
      qed
    qed
  qed
qed

theorem start_waits_for_runner_witness:
  "startSteps 1 (StartQueued (Returns None)) example_loader =
     (AwaitRunner None, example_loader\<lparr>effects := effects example_loader @ [RunnerCalled]\<rparr>) \<and>
   loadersCache (snd (startSteps 1 (StartQueued (Returns None)) example_loader)) ''a'' = None \<and>
   fst (startSteps 2 (StartQueued (Returns None)) example_loader) = AwaitBulk [LoaderTask ''a''] \<and>
   loadersCache (snd (startSteps 2 (StartQueued (Returns None)) example_loader)) ''a'' =
     Some (Preprocessing example_manifest ''a'' None)"
proof -
  have one: "startSteps 1 (StartQueued (Returns None)) example_loader =
      (AwaitRunner None, example_loader\<lparr>effects := effects example_loader @ [RunnerCalled]\<rparr>)"
    by simp
  have "snd (startSteps 1 (StartQueued (Returns None)) example_loader) =
      example_loader\<lparr>effects := effects example_loader @ [RunnerCalled]\<rparr>"
    using start_waits_for_runner
      [of 1 "Returns None" example_loader "AwaitRunner None"
        "example_loader\<lparr>effects := effects example_loader @ [RunnerCalled]\<rparr>"] one
    by (simp add: mlt_start_def)
  then have "loadersCache (snd (startSteps 1 (StartQueued (Returns None)) example_loader)) ''a'' = None"
    using loading_state by simp
  moreover have "fst (startSteps 2 (StartQueued (Returns None)) example_loader) =
      AwaitBulk [LoaderTask ''a'']"
    and "loadersCache (snd (startSteps 2 (StartQueued (Returns None)) example_loader)) ''a'' =
      Some (Preprocessing example_manifest ''a'' None)"
    by (simp_all add: numeral_2_eq_2 op_defs example_defs)
  ultimately show ?thesis using one by simp
qed




section \<open>Manual definition\<close>

text \<open>
  C8 (as amended). In every state an execution can reach, \<^verbatim>\<open>manuallyDefineBundle\<close>
  for a manifest whose name has a cached module fails, and the compiled cache is what it
  was. It fails with the error "Manifest with name ... already defined" when the bundle
  has no start entry point or its start entry point returns, and with what the start
  entry point threw otherwise: the entry point is called before the cache is looked at.
\<close>

theorem duplicate_manual_definition_fails:
  assumes "s = run evs new_ModuleLoaderTool"
    and "bundlesCache s (name m) = Some c"
  shows "fst (manuallyDefineBundle m b s) =
           Inl (case startThrown (exports b) of
                  Some ex \<Rightarrow> ex
                | None \<Rightarrow> Thrown Error (manifest_defined_message (name m))) \<and>
         bundlesCache (snd (manuallyDefineBundle m b s)) = bundlesCache s"
proof -
  have "consistent s" using assms(1) consistent_reachable by simp
  then have "bundlesList s \<noteq> None" using consistent_list [of s "name m"] assms(2) by auto
  then show ?thesis using assms(2)
    by (auto simp: manuallyDefineBundle_def setBundlesList_def Let_def split: option.splits)
qed

theorem duplicate_manual_definition_fails_witness:
  "bundlesCache manually_defined ''a'' = Some example_module \<and>
   startThrown (exports other_module) = None \<and>
   fst (manuallyDefineBundle example_manifest other_module manually_defined) =
     Inl (Thrown Error (manifest_defined_message ''a'')) \<and>
   bundlesCache (snd (manuallyDefineBundle example_manifest other_module manually_defined)) ''a'' =
     Some example_module \<and>
   startThrown (exports throwing_module) = Some (Thrown Error ''start failed'') \<and>
   fst (manuallyDefineBundle example_manifest throwing_module manually_defined) =
     Inl (Thrown Error ''start failed'') \<and>
   bundlesCache (snd (manuallyDefineBundle example_manifest throwing_module manually_defined)) ''a'' =
     Some example_module"
proof -
  have t: "startThrown (exports other_module) = None"
    "startThrown (exports throwing_module) = Some (Thrown Error ''start failed'')"
    by (simp_all add: startThrown_def other_module_def throwing_module_def)
  note returning = duplicate_manual_definition_fails
    [of manually_defined "empty_configuration @ [ManuallyDefineBundle example_manifest example_module]"
      example_manifest example_module other_module]
  note throwing = duplicate_manual_definition_fails
    [of manually_defined "empty_configuration @ [ManuallyDefineBundle example_manifest example_module]"
      example_manifest example_module throwing_module]
  show ?thesis
    using returning throwing t manually_defined_state
    by (simp add: name_example manually_defined_def [symmetric])
qed

text \<open>
  The claim as stated fails for a bundle whose start entry point throws: the name has a
  cached module, and the call fails with the error the entry point threw, not with the
  duplicate error.
\<close>

theorem throwing_start_counterexample:
  "bundlesCache manually_defined ''a'' = Some example_module \<and>
   fst (manuallyDefineBundle example_manifest throwing_module manually_defined) =
     Inl (Thrown Error ''start failed'') \<and>
   Thrown Error ''start failed'' \<noteq> Thrown Error (manifest_defined_message ''a'')"
  by (simp add: op_defs example_defs manifest_defined_message_def)

text \<open>
  C10. \<^verbatim>\<open>manuallyDefineBundle\<close> for a name that has a cached module is not atomic: when
  it throws the duplicate error it has appended the manifest to the manifest list,
  published the new list, and invoked the start entry point of the bundle if it has one.
  (A start entry point that throws ends the call with its own error, in the same state.)
\<close>

theorem duplicate_manual_definition_is_not_atomic:
  assumes "bundlesList s = Some list"
    and "bundlesCache s (name m) = Some c"
  shows "manuallyDefineBundle m b s =
           (Inl (case startThrown (exports b) of
                   Some ex \<Rightarrow> ex
                 | None \<Rightarrow> Thrown Error (manifest_defined_message (name m))),
            s\<lparr>bundlesList := Some (list @ [m]),
              bundlesListStream := bundlesListStream s @ [list @ [m]],
              effects := effects s @
                (case start (exports b) of
                   Some entry \<Rightarrow> [StartCalled (entry_label entry)]
                 | None \<Rightarrow> [])\<rparr>)"
  using assms
  by (auto simp: manuallyDefineBundle_def setBundlesList_def Let_def split: option.splits)

theorem duplicate_manual_definition_is_not_atomic_witness:
  "bundlesList loaded_on_demand = Some [example_manifest] \<and>
   bundlesCache loaded_on_demand ''a'' = Some example_module \<and>
   fst (manuallyDefineBundle example_manifest example_module loaded_on_demand) =
     Inl (Thrown Error (manifest_defined_message ''a'')) \<and>
   bundlesList (snd (manuallyDefineBundle example_manifest example_module loaded_on_demand)) =
     Some [example_manifest, example_manifest] \<and>
   bundlesListStream (snd (manuallyDefineBundle example_manifest example_module loaded_on_demand)) =
     [[], [example_manifest], [example_manifest, example_manifest]] \<and>
   effects (snd (manuallyDefineBundle example_manifest example_module loaded_on_demand)) =
     effects loaded_on_demand @ [StartCalled ''go'']"
  using duplicate_manual_definition_is_not_atomic
    [of loaded_on_demand "[example_manifest]" example_manifest example_module example_module]
    loaded_state
  by (simp add: name_example example_module_def example_exports_def startThrown_def)

end
